theory Spec2Isabelle
  imports Complex_Main
begin

section \<open>JavaScript values\<close>

text \<open>
  The routes of \<^verbatim>\<open>routes/impresoras\<close> work on JSON bodies and on lean Mongoose
  documents. A field that is \<^verbatim>\<open>null\<close> or \<^verbatim>\<open>undefined\<close> is \<open>None\<close>; where
  the code tells the two apart (only \<^verbatim>\<open>Number(s?.level)\<close> and
  \<^verbatim>\<open>Number(s?.max)\<close> do) the field is a \<open>jsval\<close>. Counters and instants are
  integers; instants are milliseconds since the epoch. A number of a supply is the
  rational that the binary64 value denotes: a JSON number is finite.
\<close>

type_synonym oid = nat
type_synonym millis = int

datatype jsval = Undefined | Null | Num rat

datatype jsnum = NaN | Fin rat

text \<open>\<^verbatim>\<open>Number(v)\<close>: \<^verbatim>\<open>Number(undefined)\<close> is NaN and \<^verbatim>\<open>Number(null)\<close> is 0.\<close>

fun Number :: "jsval \<Rightarrow> jsnum" where
  "Number Undefined = NaN"
| "Number Null = Fin 0"
| "Number (Num r) = Fin r"

text \<open>A \<^verbatim>\<open>Date\<close> object; \<^verbatim>\<open>getTime()\<close> of an invalid date is NaN.\<close>

datatype jsdate = InvalidDate | Date millis

fun getTime :: "jsdate \<Rightarrow> millis option" where
  "getTime InvalidDate = None"
| "getTime (Date t) = Some t"

text \<open>\<^verbatim>\<open>!!s\<close> for a string field: \<^verbatim>\<open>null\<close>, \<^verbatim>\<open>undefined\<close> and \<^verbatim>\<open>''\<close> are falsy.\<close>

fun truthy :: "string option \<Rightarrow> bool" where
  "truthy None = False"
| "truthy (Some s) = (s \<noteq> [])"

text \<open>\<^verbatim>\<open>n || 0\<close> for a counter: \<^verbatim>\<open>0 || 0\<close> is \<open>0\<close> as well.\<close>

fun or0 :: "int option \<Rightarrow> int" where
  "or0 None = 0"
| "or0 (Some n) = n"

text \<open>\<^verbatim>\<open>xs || []\<close> for an array field: every array is truthy, the empty one too.\<close>

fun or_nil :: "'a list option \<Rightarrow> 'a list" where
  "or_nil None = []"
| "or_nil (Some xs) = xs"

text \<open>\<^verbatim>\<open>a || b\<close> for strings.\<close>

definition or_str :: "string \<Rightarrow> string \<Rightarrow> string" where
  "or_str a b = (if a = [] then b else a)"

text \<open>
  What the JavaScript runtime formats by locale and time zone is a parameter:
  \<^verbatim>\<open>Date.prototype.toLocaleDateString\<close>, \<^verbatim>\<open>getMonth\<close>, \<^verbatim>\<open>getFullYear\<close> and
  \<^verbatim>\<open>Number.prototype.toLocaleString\<close>. So is its binary64 arithmetic on numbers
  that are not integers: \<open>div64\<close> is the operator \<^verbatim>\<open>/\<close> and \<open>mul64\<close> the
  operator \<^verbatim>\<open>*\<close>, each on two finite numbers and with the rounding of the runtime;
  a result beyond the binary64 range stands for the infinity that the runtime returns.
\<close>

record runtime =
  toLocaleDateString :: "jsdate \<Rightarrow> string"
  getMonth :: "millis \<Rightarrow> int"
  getFullYear :: "millis \<Rightarrow> int"
  toLocaleString :: "int \<Rightarrow> string"
  div64 :: "rat \<Rightarrow> rat \<Rightarrow> rat"
  mul64 :: "rat \<Rightarrow> rat \<Rightarrow> rat"

section \<open>Documents\<close>

text \<open>One element of a \<^verbatim>\<open>supplies\<close> array: \<^verbatim>\<open>{name, level, max}\<close>.\<close>

record supply_item =
  name_s :: "string option"
  level :: jsval
  max_s :: jsval

text \<open>
  Modelled from the spec: the Mongoose schemas \<^verbatim>\<open>models/ImpresoraLatest\<close>,
  \<^verbatim>\<open>models/CortesMensuales\<close>, \<^verbatim>\<open>models/Impresora\<close> and \<^verbatim>\<open>models/Empresa\<close> are
  not among the sources. The records below have the fields that the routes read and
  write, which are the fields section 3 of the specification lists for LatestState,
  Cut, Device and Tenant; a field is stored as the route passes it. The field
  \<^verbatim>\<open>_id\<close> of a document is \<open>corte_id\<close>, \<open>imp_id\<close> or \<open>empresa_id\<close>; the fields
  \<^verbatim>\<open>printerId\<close>, \<^verbatim>\<open>empresaId\<close> and \<^verbatim>\<open>ultimoCorteId\<close> of a cut carry the prefix
  \<open>corte_\<close>, and the year of a cut is \<open>anio\<close>.
\<close>

record latest_doc =
  printerId :: oid
  lastPageCount :: "int option"
  lastPageMono :: "int option"
  lastPageColor :: "int option"
  lastSupplies :: "supply_item list option"
  lastSeenAt :: "jsdate option"
  lowToner :: "bool option"
  online :: "bool option"
  ultimoCorteId :: "oid option"
  lastCutDate :: "jsdate option"

record corte =
  corte_id :: oid
  corte_printerId :: oid
  corte_empresaId :: oid
  fechaCorte :: jsdate
  mes :: int
  anio :: int
  contadorInicioGeneral :: "int option"
  contadorFinGeneral :: "int option"
  totalPaginasGeneral :: "int option"
  periodo :: string
  suppliesInicio :: "supply_item list option"
  suppliesFin :: "supply_item list option"
  nombreImpresora :: string
  modeloImpresora :: string
  corte_ultimoCorteId :: "oid option"

record impresora =
  imp_id :: oid
  empresaId :: oid
  ciudad :: "string option"
  host :: string
  serial :: "string option"
  sysName :: "string option"
  sysDescr :: "string option"
  printerName :: "string option"
  model :: "string option"
  createdAt :: jsdate

record empresa =
  empresa_id :: oid
  nombre :: string
  apiKey :: string

text \<open>
  The collections, each in its natural order: \<^verbatim>\<open>findOne\<close> returns the first
  document that matches.
\<close>

record store =
  empresas :: "empresa list"
  impresoras :: "impresora list"
  latests :: "latest_doc list"
  cortes :: "corte list"

text \<open>
  The identifier given to a new document: one that no document of the collection has.
\<close>

definition fresh_id :: "oid list \<Rightarrow> oid" where
  "fresh_id ids = Suc (fold max ids 0)"

text \<open>The update of \<^verbatim>\<open>findOneAndUpdate\<close>: the first match is changed, no other.\<close>

fun update_first :: "('a \<Rightarrow> bool) \<Rightarrow> ('a \<Rightarrow> 'a) \<Rightarrow> 'a list \<Rightarrow> 'a list" where
  "update_first P f [] = []"
| "update_first P f (x # xs) = (if P x then f x # xs else x # update_first P f xs)"

text \<open>
  Every \<^verbatim>\<open>await\<close> on the database may reject, and the \<^verbatim>\<open>catch\<close> of the route
  then answers 500. Which calls reject is an argument of each route, a predicate on:
\<close>

datatype dbcall =
    FindEmpresa | UpsertImpresora | UpsertLatest
  | FindImpresora | FindLatest | FindCorte | SaveCorte | UpdateLatest

text \<open>The answers of the routes that are not 200, with their status codes.\<close>

datatype error =
    FaltaApiKey | ApiKeyInvalida | HostRequerido | ErrorIngesta
  | ImpresoraNoEncontrada | DatosNoEncontrados | ErrorInternoCorte
  | PrimeroRegistrarCorte | ErrorInternoPDF

fun status :: "error \<Rightarrow> nat" where
  "status FaltaApiKey = 401"
| "status ApiKeyInvalida = 403"
| "status HostRequerido = 400"
| "status ErrorIngesta = 500"
| "status ImpresoraNoEncontrada = 404"
| "status DatosNoEncontrados = 404"
| "status ErrorInternoCorte = 500"
| "status PrimeroRegistrarCorte = 400"
| "status ErrorInternoPDF = 500"

section \<open>Online-state derivation\<close>

text \<open>
  \<^verbatim>\<open>const ONLINE_STALE_MS = Number(process.env.ONLINE_STALE_MS || 2 * 60 * 1000)\<close>.
  The argument is the environment variable read as a number: \<open>None\<close> when it is unset
  or empty, \<open>Some NaN\<close> when it is set to something that is not a number.
\<close>

definition ONLINE_STALE_MS :: "jsnum option \<Rightarrow> jsnum" where
  "ONLINE_STALE_MS env = (case env of None \<Rightarrow> Fin (2 * 60 * 1000) | Some v \<Rightarrow> v)"

text \<open>\<^verbatim>\<open>age <= ONLINE_STALE_MS\<close>: a comparison with NaN is false.\<close>

fun age_le :: "millis \<Rightarrow> jsnum \<Rightarrow> bool" where
  "age_le age NaN = False"
| "age_le age (Fin t) = (of_int age \<le> t)"

text \<open>
  \<^verbatim>\<open>computeDerivedOnline(latest, now)\<close>; the module constant \<^verbatim>\<open>ONLINE_STALE_MS\<close>
  is the first argument.
\<close>

definition computeDerivedOnline :: "jsnum \<Rightarrow> latest_doc option \<Rightarrow> millis \<Rightarrow> bool" where
  "computeDerivedOnline stale latest now =
     (case latest of
        None \<Rightarrow> False
      | Some l \<Rightarrow>
          (case lastSeenAt l of
             None \<Rightarrow> False
           | Some seen \<Rightarrow>
               if online l = Some False then False
               else (case getTime seen of
                       None \<Rightarrow> False
                     | Some ts \<Rightarrow> age_le (now - ts) stale)))"

section \<open>Cut calculator\<close>

record calculos =
  calc_contadorInicioGeneral :: int
  calc_contadorFinGeneral :: int
  calc_totalPaginasGeneral :: int
  calc_periodo :: string
  calc_esPrimerCorte :: bool

text \<open>The literal \<^verbatim>\<open>'Desde instalaci\<acute>on'\<close>; its accented letter is the code unit 0xF3.\<close>

definition Desde_instalacion :: string where
  "Desde_instalacion = ''Desde instalaci'' @ [CHR 0xF3] @ ''n''"

text \<open>
  \<^verbatim>\<open>calcularPeriodoCorte(ultimoCorte, contadoresActuales)\<close>. The function reads the
  clock (\<^verbatim>\<open>new Date()\<close>) for the end of the period: that instant is the last argument.
\<close>

definition calcularPeriodoCorte ::
  "runtime \<Rightarrow> corte option \<Rightarrow> latest_doc \<Rightarrow> millis \<Rightarrow> calculos" where
  "calcularPeriodoCorte rt ultimoCorte contadoresActuales ahora =
     (let contadorActual = or0 (lastPageCount contadoresActuales) in
      case ultimoCorte of
        None \<Rightarrow>
          \<lparr> calc_contadorInicioGeneral = 0,
            calc_contadorFinGeneral = contadorActual,
            calc_totalPaginasGeneral = contadorActual,
            calc_periodo = Desde_instalacion,
            calc_esPrimerCorte = True \<rparr>
      | Some uc \<Rightarrow>
          (let inicio = or0 (contadorFinGeneral uc);
               totalPaginas = max 0 (contadorActual - inicio);
               fechaInicio = fechaCorte uc;
               fechaFin = Date ahora
           in \<lparr> calc_contadorInicioGeneral = inicio,
                calc_contadorFinGeneral = contadorActual,
                calc_totalPaginasGeneral = totalPaginas,
                calc_periodo = toLocaleDateString rt fechaInicio @ '' - '' @ toLocaleDateString rt fechaFin,
                calc_esPrimerCorte = False \<rparr>))"

section \<open>Telemetry ingestion\<close>

text \<open>
  The body of \<^verbatim>\<open>POST /api/metrics/impresoras\<close> after its destructuring.
  \<open>b_pageCount\<close> (and the mono and colour counts) is \<open>Some n\<close> exactly when
  \<^verbatim>\<open>typeof pageCount === 'number' && !Number.isNaN(pageCount)\<close>; \<open>b_supplies\<close> is
  \<open>Some xs\<close> exactly when \<^verbatim>\<open>Array.isArray(supplies)\<close>, and a body without the key
  has \<open>Some []\<close>, the default; \<open>b_ts\<close> is \<^verbatim>\<open>new Date(ts)\<close>, \<open>None\<close> for a body
  without the key, where the route reads the clock; \<open>b_agentVersion\<close> is \<open>None\<close> for
  a body without the key. An element of \<^verbatim>\<open>supplies\<close> is an object.
\<close>

record metrics_body =
  b_host :: "string option"
  b_pageCount :: "int option"
  b_pageCountMono :: "int option"
  b_pageCountColor :: "int option"
  b_supplies :: "supply_item list option"
  b_sysName :: "string option"
  b_sysDescr :: "string option"
  b_printerName :: "string option"
  b_serial :: "string option"
  b_model :: "string option"
  b_ciudad :: "string option"
  b_ts :: "jsdate option"
  b_agentVersion :: "string option"

text \<open>
  \<^verbatim>\<open>auth.startsWith('Bearer ') ? auth.slice(7) : null\<close>, on
  \<^verbatim>\<open>req.headers['authorization'] || ''\<close>.
\<close>

definition bearer_token :: "string option \<Rightarrow> string option" where
  "bearer_token hdr =
     (let auth = (case hdr of None \<Rightarrow> [] | Some a \<Rightarrow> a)
      in if take 7 auth = ''Bearer '' then Some (drop 7 auth) else None)"

text \<open>
  The filter of \<^verbatim>\<open>Impresora.findOneAndUpdate\<close>:
  \<^verbatim>\<open>{ empresaId: empresa._id, ...(serial ? { $or: [{ serial }, { host }] } : { host }) }\<close>.
\<close>

definition claveOr :: "oid \<Rightarrow> string option \<Rightarrow> string \<Rightarrow> impresora \<Rightarrow> bool" where
  "claveOr eid ser h d =
     (empresaId d = eid \<and>
      (if truthy ser then serial d = ser \<or> host d = h else host d = h))"

text \<open>\<^verbatim>\<open>$set: setBase\<close>.\<close>

definition setBase :: "oid \<Rightarrow> metrics_body \<Rightarrow> string \<Rightarrow> impresora \<Rightarrow> impresora" where
  "setBase eid b h d =
     d\<lparr> empresaId := eid,
        ciudad := (if truthy (b_ciudad b) then b_ciudad b else None),
        host := h,
        serial := b_serial b,
        sysName := b_sysName b,
        sysDescr := b_sysDescr b,
        printerName := b_printerName b,
        model := b_model b \<rparr>"

text \<open>
  \<^verbatim>\<open>Impresora.findOneAndUpdate(filter, {$set, $setOnInsert}, {new: true, upsert: true})\<close>:
  the document after the update, and the collection.
\<close>

definition upsert_impresora ::
  "millis \<Rightarrow> oid \<Rightarrow> metrics_body \<Rightarrow> string \<Rightarrow> impresora list \<Rightarrow> impresora \<times> impresora list" where
  "upsert_impresora now eid b h ds =
     (case find (claveOr eid (b_serial b) h) ds of
        Some d \<Rightarrow> (setBase eid b h d, update_first (claveOr eid (b_serial b) h) (setBase eid b h) ds)
      | None \<Rightarrow>
          (let d = setBase eid b h
                     \<lparr> imp_id = fresh_id (map imp_id ds), empresaId = eid, ciudad = None,
                       host = h, serial = None, sysName = None, sysDescr = None,
                       printerName = None, model = None, createdAt = Date now \<rparr>
           in (d, ds @ [d])))"

text \<open>
  The callback of \<^verbatim>\<open>supplies.some\<close>: its first \<^verbatim>\<open>return\<close> is the branch with
  both numbers finite and \<open>0 < max\<close>, its second every other branch. The quotient
  and the product of \<^verbatim>\<open>(lvl / max) * 100 <= 20\<close> are those of the runtime; the
  comparisons are exact.
\<close>

definition supply_low :: "runtime \<Rightarrow> supply_item \<Rightarrow> bool" where
  "supply_low rt s =
     (case (Number (level s), Number (max_s s)) of
        (Fin lvl, Fin mx) \<Rightarrow>
          if 0 < mx then mul64 rt (div64 rt lvl mx) 100 \<le> 20 else lvl \<le> 20
      | (Fin lvl, NaN) \<Rightarrow> lvl \<le> 20
      | (NaN, _) \<Rightarrow> False)"

definition lowToner_of :: "runtime \<Rightarrow> supply_item list option \<Rightarrow> bool" where
  "lowToner_of rt supplies =
     (case supplies of None \<Rightarrow> False | Some xs \<Rightarrow> list_ex (supply_low rt) xs)"

definition snmpOk_of :: "metrics_body \<Rightarrow> bool" where
  "snmpOk_of b =
     (b_pageCount b \<noteq> None \<or>
      (case b_supplies b of None \<Rightarrow> False | Some xs \<Rightarrow> 0 < length xs) \<or>
      truthy (b_sysName b) \<or> truthy (b_sysDescr b) \<or> truthy (b_serial b) \<or> truthy (b_model b))"

text \<open>\<^verbatim>\<open>$set\<close> of \<^verbatim>\<open>ImpresoraLatest.findOneAndUpdate\<close> in the ingestion.\<close>

definition set_latest :: "runtime \<Rightarrow> millis \<Rightarrow> metrics_body \<Rightarrow> latest_doc \<Rightarrow> latest_doc" where
  "set_latest rt now b l =
     l\<lparr> lastPageCount := b_pageCount b,
        lastPageMono := b_pageCountMono b,
        lastPageColor := b_pageCountColor b,
        lastSupplies := Some (or_nil (b_supplies b)),
        lastSeenAt := Some (case b_ts b of None \<Rightarrow> Date now | Some d \<Rightarrow> d),
        lowToner := Some (lowToner_of rt (b_supplies b)),
        online := Some (snmpOk_of b) \<rparr>"

definition upsert_latest :: "oid \<Rightarrow> (latest_doc \<Rightarrow> latest_doc) \<Rightarrow> latest_doc list \<Rightarrow> latest_doc list" where
  "upsert_latest pid f ls =
     (case find (\<lambda>l. printerId l = pid) ls of
        Some _ \<Rightarrow> update_first (\<lambda>l. printerId l = pid) f ls
      | None \<Rightarrow>
          ls @ [f \<lparr> printerId = pid, lastPageCount = None, lastPageMono = None,
                    lastPageColor = None, lastSupplies = None, lastSeenAt = None,
                    lowToner = None, online = None, ultimoCorteId = None,
                    lastCutDate = None \<rparr>])"

record ingest_ok =
  ok_printerId :: oid
  ok_empresaId :: oid
  ok_agentVersion :: string

text \<open>
  \<^verbatim>\<open>router.post('/api/metrics/impresoras', ...)\<close>: the answer and the store after it.
\<close>

definition post_metrics ::
  "runtime \<Rightarrow> (dbcall \<Rightarrow> bool) \<Rightarrow> millis \<Rightarrow> store \<Rightarrow> string option \<Rightarrow> metrics_body
     \<Rightarrow> (error + ingest_ok) \<times> store" where
  "post_metrics rt fails now s hdr b =
     (case bearer_token hdr of
        None \<Rightarrow> (Inl FaltaApiKey, s)
      | Some token \<Rightarrow>
          if token = [] then (Inl FaltaApiKey, s)
          else if fails FindEmpresa then (Inl ErrorIngesta, s)
          else (case find (\<lambda>e. apiKey e = token) (empresas s) of
                  None \<Rightarrow> (Inl ApiKeyInvalida, s)
                | Some emp \<Rightarrow>
                    if \<not> truthy (b_host b) then (Inl HostRequerido, s)
                    else if fails UpsertImpresora then (Inl ErrorIngesta, s)
                    else
                      (let (imp, ds) = upsert_impresora now (empresa_id emp) b (the (b_host b)) (impresoras s);
                           s1 = s\<lparr> impresoras := ds \<rparr>
                       in if fails UpsertLatest then (Inl ErrorIngesta, s1)
                          else
                            (Inr \<lparr> ok_printerId = imp_id imp, ok_empresaId = empresa_id emp,
                                   ok_agentVersion =
                                     (case b_agentVersion b of None \<Rightarrow> ''1.0.0'' | Some v \<Rightarrow> v) \<rparr>,
                             s1\<lparr> latests := upsert_latest (imp_id imp) (set_latest rt now b) (latests s1) \<rparr>))))"

section \<open>Cut ledger\<close>

text \<open>\<^verbatim>\<open>a || b\<close> where \<open>a\<close> is a string field that may be absent.\<close>

definition or_opt :: "string option \<Rightarrow> string \<Rightarrow> string" where
  "or_opt a b = (if truthy a then the a else b)"

text \<open>
  \<^verbatim>\<open>Impresora.findById\<close>, \<^verbatim>\<open>ImpresoraLatest.findOne({ printerId })\<close> and
  \<^verbatim>\<open>CortesMensuales.findById\<close>. The identifier of a request is a well-formed one:
  the cast of a malformed identifier is not modelled.
\<close>

definition find_impresora :: "store \<Rightarrow> oid \<Rightarrow> impresora option" where
  "find_impresora s k = find (\<lambda>d. imp_id d = k) (impresoras s)"

definition find_latest :: "store \<Rightarrow> oid \<Rightarrow> latest_doc option" where
  "find_latest s pid = find (\<lambda>l. printerId l = pid) (latests s)"

definition find_corte :: "store \<Rightarrow> oid \<Rightarrow> corte option" where
  "find_corte s k = find (\<lambda>c. corte_id c = k) (cortes s)"

text \<open>\<^verbatim>\<open>new CortesMensuales({...})\<close> in the route that registers a cut.\<close>

definition nuevoCorte ::
  "runtime \<Rightarrow> millis \<Rightarrow> store \<Rightarrow> oid \<Rightarrow> impresora \<Rightarrow> latest_doc \<Rightarrow> corte option \<Rightarrow> corte" where
  "nuevoCorte rt ahora s pid imp latest ultimoCorte =
     (let calcs = calcularPeriodoCorte rt ultimoCorte latest ahora in
      \<lparr> corte_id = fresh_id (map corte_id (cortes s)),
        corte_printerId = pid,
        corte_empresaId = empresaId imp,
        fechaCorte = Date ahora,
        mes = getMonth rt ahora + 1,
        anio = getFullYear rt ahora,
        contadorInicioGeneral = Some (calc_contadorInicioGeneral calcs),
        contadorFinGeneral = Some (calc_contadorFinGeneral calcs),
        totalPaginasGeneral = Some (calc_totalPaginasGeneral calcs),
        periodo = calc_periodo calcs,
        suppliesInicio = Some (case ultimoCorte of None \<Rightarrow> [] | Some uc \<Rightarrow> or_nil (suppliesFin uc)),
        suppliesFin = Some (or_nil (lastSupplies latest)),
        nombreImpresora = or_opt (printerName imp) (or_opt (sysName imp) (host imp)),
        modeloImpresora = or_opt (model imp) (or_opt (sysDescr imp) []),
        corte_ultimoCorteId = None \<rparr>)"

text \<open>\<^verbatim>\<open>$set: { ultimoCorteId: corteGuardado._id, lastCutDate: ahora }\<close>.\<close>

definition set_ultimoCorte :: "oid \<Rightarrow> millis \<Rightarrow> latest_doc \<Rightarrow> latest_doc" where
  "set_ultimoCorte k ahora l = l\<lparr> ultimoCorteId := Some k, lastCutDate := Some (Date ahora) \<rparr>"

record corte_ok =
  ok_corteId :: oid
  ok_inicio :: int
  ok_fin :: int
  ok_totalPaginas :: int
  ok_fecha :: string

text \<open>
  \<^verbatim>\<open>router.post('/api/impresoras/:id/registrar-corte', ...)\<close>. The result is the
  answer and the states of the store in the order the route goes through them: the
  store it starts from, then the store after each write that completed. The route
  reads the clock once for \<^verbatim>\<open>ahora\<close> and once more inside
  \<^verbatim>\<open>calcularPeriodoCorte\<close>; both readings are the argument \<open>ahora\<close>.
\<close>

definition registrar_corte ::
  "runtime \<Rightarrow> (dbcall \<Rightarrow> bool) \<Rightarrow> millis \<Rightarrow> store \<Rightarrow> oid \<Rightarrow> (error + corte_ok) \<times> store list" where
  "registrar_corte rt fails ahora s pid =
     (if fails FindImpresora then (Inl ErrorInternoCorte, [s])
      else
       (case find_impresora s pid of
          None \<Rightarrow> (Inl ImpresoraNoEncontrada, [s])
        | Some imp \<Rightarrow>
            if fails FindLatest then (Inl ErrorInternoCorte, [s])
            else
             (case find_latest s pid of
                None \<Rightarrow> (Inl DatosNoEncontrados, [s])
              | Some latest \<Rightarrow>
                  if ultimoCorteId latest \<noteq> None \<and> fails FindCorte then (Inl ErrorInternoCorte, [s])
                  else
                    (let ultimoCorte = (case ultimoCorteId latest of
                                          None \<Rightarrow> None
                                        | Some k \<Rightarrow> find_corte s k);
                         nuevo = nuevoCorte rt ahora s pid imp latest ultimoCorte
                     in if fails SaveCorte then (Inl ErrorInternoCorte, [s])
                        else
                          (let s1 = s\<lparr> cortes := cortes s @ [nuevo] \<rparr>
                           in if fails UpdateLatest then (Inl ErrorInternoCorte, [s, s1])
                              else
                                (let s2 = s1\<lparr> latests :=
                                             update_first (\<lambda>l. printerId l = pid)
                                               (set_ultimoCorte (corte_id nuevo) ahora) (latests s1) \<rparr>
                                 in (Inr \<lparr> ok_corteId = corte_id nuevo,
                                           ok_inicio = or0 (contadorInicioGeneral nuevo),
                                           ok_fin = or0 (lastPageCount latest),
                                           ok_totalPaginas = or0 (totalPaginasGeneral nuevo),
                                           ok_fecha = toLocaleDateString rt (Date ahora) \<rparr>,
                                     [s, s1, s2])))))))"

section \<open>Report\<close>

text \<open>
  What \<^verbatim>\<open>generarPDFProfesional(corte, impresora)\<close> writes in the general
  information block and in the three headline statistics, each without its label.
  The supplies section, the generation date and the footer are not modelled.
\<close>

record pdf_doc =
  pdf_empresa :: string
  pdf_impresora :: string
  pdf_modelo :: string
  pdf_serie :: string
  pdf_ubicacion :: string
  pdf_periodo :: string
  pdf_inicio :: string
  pdf_fin :: string
  pdf_total :: string

text \<open>
  \<open>impresora\<close> is the device with its \<^verbatim>\<open>empresaId\<close> populated, or \<open>None\<close>; reading a
  property of \<^verbatim>\<open>null\<close> (the device, the end counter or the total of the cut) throws,
  and the promise rejects.
\<close>

definition generarPDFProfesional ::
  "runtime \<Rightarrow> corte \<Rightarrow> (impresora \<times> empresa option) option \<Rightarrow> pdf_doc option" where
  "generarPDFProfesional rt c impresora =
     (case impresora of
        None \<Rightarrow> None
      | Some (imp, emp) \<Rightarrow>
          (case contadorFinGeneral c of
             None \<Rightarrow> None
           | Some fin \<Rightarrow>
               (case totalPaginasGeneral c of
                  None \<Rightarrow> None
                | Some tot \<Rightarrow>
                    Some \<lparr> pdf_empresa = (case emp of None \<Rightarrow> ''N/A'' | Some e \<Rightarrow> or_str (nombre e) ''N/A''),
                           pdf_impresora = or_opt (printerName imp) (or_opt (sysName imp) (host imp)),
                           pdf_modelo = or_opt (model imp) (or_opt (sysDescr imp) ''N/A''),
                           pdf_serie = or_opt (serial imp) ''No disponible'',
                           pdf_ubicacion = or_opt (ciudad imp) ''N/A'',
                           pdf_periodo = or_str (periodo c) ''No especificado'',
                           pdf_inicio = (case contadorInicioGeneral c of
                                           None \<Rightarrow> ''0''
                                         | Some n \<Rightarrow> or_str (toLocaleString rt n) ''0''),
                           pdf_fin = toLocaleString rt fin,
                           pdf_total = toLocaleString rt tot \<rparr>)))"

text \<open>
  \<^verbatim>\<open>router.get('/api/impresoras/:id/generar-pdf', ...)\<close>; the route writes nothing
  to the store.
\<close>

definition generar_pdf ::
  "runtime \<Rightarrow> (dbcall \<Rightarrow> bool) \<Rightarrow> millis \<Rightarrow> store \<Rightarrow> oid \<Rightarrow> error + pdf_doc" where
  "generar_pdf rt fails now s pid =
     (if fails FindLatest then Inl ErrorInternoPDF
      else
       (case find_latest s pid of
          None \<Rightarrow> Inl PrimeroRegistrarCorte
        | Some latest \<Rightarrow>
            (case (case ultimoCorteId latest of None \<Rightarrow> None | Some k \<Rightarrow> find_corte s k) of
               None \<Rightarrow> Inl PrimeroRegistrarCorte
             | Some c \<Rightarrow>
                 if fails FindImpresora then Inl ErrorInternoPDF
                 else if corte_ultimoCorteId c \<noteq> None \<and> fails FindCorte then Inl ErrorInternoPDF
                 else
                   (let impresora = (case find_impresora s pid of
                                       None \<Rightarrow> None
                                     | Some imp \<Rightarrow>
                                         Some (imp, find (\<lambda>e. empresa_id e = empresaId imp) (empresas s)));
                        ultimoCorteAnterior = (case corte_ultimoCorteId c of
                                                 None \<Rightarrow> None
                                               | Some k \<Rightarrow> find_corte s k);
                        calculosPeriodo = calcularPeriodoCorte rt ultimoCorteAnterior latest now;
                        datosPDF = c\<lparr> periodo := calc_periodo calculosPeriodo \<rparr>
                    in (case generarPDFProfesional rt datosPDF impresora of
                          None \<Rightarrow> Inl ErrorInternoPDF
                        | Some pdf \<Rightarrow> Inr pdf)))))"

text \<open>
  The latest-cut pointer of a latest state is sound when it references a cut that the
  store holds.
\<close>

definition pointers_ok :: "store \<Rightarrow> bool" where
  "pointers_ok s =
     list_all (\<lambda>l. case ultimoCorteId l of None \<Rightarrow> True | Some k \<Rightarrow> find_corte s k \<noteq> None)
       (latests s)"

section \<open>Sample data\<close>


definition d02 :: rat where
  "d02 = 3602879701896397 / 18014398509481984"

definition d015 :: rat where
  "d015 = 5404319552844595 / 36028797018963968"

definition d06 :: rat where
  "d06 = 5404319552844595 / 9007199254740992"


text \<open>
  A runtime, and documents of the kind the routes store, for concrete runs. Its
  division and multiplication round as binary64 does at the operands of the sample
  data where binary64 rounds, \<open>15 / 100\<close>, \<open>60 / 100\<close> and the products of \<open>d015\<close>,
  \<open>d06\<close> and \<open>d02\<close> with 100, and are exact elsewhere.
\<close>

definition rt0 :: runtime where
  "rt0 = \<lparr> toLocaleDateString = (\<lambda>d. case d of InvalidDate \<Rightarrow> ''Invalid Date''
                                        | Date t \<Rightarrow> if t < 86400000 then ''1/1/1970''
                                                   else ''1/2/1970''),
           getMonth = (\<lambda>t. 0),
           getFullYear = (\<lambda>t. 1970),
           toLocaleString = (\<lambda>n. if n = 0 then ''0'' else if n = 300 then ''300''
                                  else if n = 1500 then ''1,500''
                                  else if n = 1800 then ''1,800'' else ''#''),
           div64 = (\<lambda>a b. if a = 15 \<and> b = 100 then d015
                          else if a = 60 \<and> b = 100 then d06 else a / b),
           mul64 = (\<lambda>a b. if a = d015 \<and> b = 100 then 15
                          else if a = d06 \<and> b = 100 then 60
                          else if a = d02 \<and> b = 100 then 20 else a * b) \<rparr>"

definition sample_latest :: "int option \<Rightarrow> latest_doc" where
  "sample_latest c =
     \<lparr> printerId = 1, lastPageCount = c, lastPageMono = None, lastPageColor = None,
       lastSupplies = Some [], lastSeenAt = Some (Date 1000), lowToner = Some False,
       online = Some True, ultimoCorteId = None, lastCutDate = None \<rparr>"

definition sample_corte :: "int \<Rightarrow> corte" where
  "sample_corte e =
     \<lparr> corte_id = 1, corte_printerId = 1, corte_empresaId = 1, fechaCorte = Date 0,
       mes = 1, anio = 1970, contadorInicioGeneral = Some 0, contadorFinGeneral = Some e,
       totalPaginasGeneral = Some e, periodo = Desde_instalacion,
       suppliesInicio = Some [], suppliesFin = Some [], nombreImpresora = ''p'',
       modeloImpresora = [], corte_ultimoCorteId = None \<rparr>"

definition no_fail :: "dbcall \<Rightarrow> bool" where
  "no_fail c = False"

definition store0 :: store where
  "store0 = \<lparr> empresas = [\<lparr> empresa_id = 1, nombre = ''Acme'', apiKey = ''emp_k1'' \<rparr>],
              impresoras = [], latests = [], cortes = [] \<rparr>"

definition hdr0 :: "string option" where
  "hdr0 = Some ''Bearer emp_k1''"

text \<open>A body with a host and nothing else: every other key is missing.\<close>

definition body_host :: "string \<Rightarrow> metrics_body" where
  "body_host h =
     \<lparr> b_host = Some h, b_pageCount = None, b_pageCountMono = None, b_pageCountColor = None,
       b_supplies = Some [], b_sysName = None, b_sysDescr = None, b_printerName = None,
       b_serial = None, b_model = None, b_ciudad = None, b_ts = None, b_agentVersion = None \<rparr>"

text \<open>A toner supply with maximum 100.\<close>

definition black :: "rat \<Rightarrow> supply_item" where
  "black lvl = \<lparr> name_s = Some ''black'', level = Num lvl, max_s = Num 100 \<rparr>"

text \<open>A body with a page count, one supply, and the identity strings of a printer.\<close>

definition body_full :: "string \<Rightarrow> string \<Rightarrow> int \<Rightarrow> rat \<Rightarrow> metrics_body" where
  "body_full h ser pages lvl =
     \<lparr> b_host = Some h, b_pageCount = Some pages, b_pageCountMono = None,
       b_pageCountColor = None,
       b_supplies = Some [black lvl],
       b_sysName = Some ''prn'', b_sysDescr = None, b_printerName = None,
       b_serial = Some ser, b_model = Some ''M1'', b_ciudad = None, b_ts = None,
       b_agentVersion = None \<rparr>"

text \<open>
  The stores of a run on one printer: a report, a cut, a report a day later, a second
  cut.
\<close>

definition dev1 :: impresora where
  "dev1 = \<lparr> imp_id = 1, empresaId = 1, ciudad = None, host = ''10.0.0.5'',
            serial = Some ''A1'', sysName = Some ''prn'', sysDescr = None,
            printerName = None, model = Some ''M1'', createdAt = Date 1000 \<rparr>"

definition latest_at ::
  "int \<Rightarrow> rat \<Rightarrow> millis \<Rightarrow> bool \<Rightarrow> oid option \<Rightarrow> jsdate option \<Rightarrow> latest_doc" where
  "latest_at pages lvl seen low ptr cutDate =
     \<lparr> printerId = 1, lastPageCount = Some pages, lastPageMono = None, lastPageColor = None,
       lastSupplies = Some [black lvl], lastSeenAt = Some (Date seen), lowToner = Some low,
       online = Some True, ultimoCorteId = ptr, lastCutDate = cutDate \<rparr>"

definition corte1 :: corte where
  "corte1 = \<lparr> corte_id = 1, corte_printerId = 1, corte_empresaId = 1, fechaCorte = Date 2000,
              mes = 1, anio = 1970, contadorInicioGeneral = Some 0,
              contadorFinGeneral = Some 1500, totalPaginasGeneral = Some 1500,
              periodo = Desde_instalacion, suppliesInicio = Some [],
              suppliesFin = Some [black 15], nombreImpresora = ''prn'',
              modeloImpresora = ''M1'', corte_ultimoCorteId = None \<rparr>"

definition corte2 :: corte where
  "corte2 = \<lparr> corte_id = 2, corte_printerId = 1, corte_empresaId = 1,
              fechaCorte = Date 90001000, mes = 1, anio = 1970,
              contadorInicioGeneral = Some 1500, contadorFinGeneral = Some 1800,
              totalPaginasGeneral = Some 300, periodo = ''1/1/1970 - 1/2/1970'',
              suppliesInicio = Some [black 15], suppliesFin = Some [black 60],
              nombreImpresora = ''prn'', modeloImpresora = ''M1'',
              corte_ultimoCorteId = None \<rparr>"

definition store1 :: store where
  "store1 = store0\<lparr> impresoras := [dev1], latests := [latest_at 1500 15 1000 True None None] \<rparr>"

definition store1c :: store where
  "store1c = store1\<lparr> cortes := [corte1] \<rparr>"

definition store2 :: store where
  "store2 = store1c\<lparr> latests := [latest_at 1500 15 1000 True (Some 1) (Some (Date 2000))] \<rparr>"

definition store3 :: store where
  "store3 = store2\<lparr> latests := [latest_at 1800 60 90000000 False (Some 1) (Some (Date 2000))] \<rparr>"

definition store3c :: store where
  "store3c = store3\<lparr> cortes := [corte1, corte2] \<rparr>"

definition store4 :: store where
  "store4 = store3c\<lparr> latests := [latest_at 1800 60 90000000 False (Some 2) (Some (Date 90001000))] \<rparr>"

text \<open>
  Three reports of one tenant: a printer with serial B at host 10.0.0.2, a printer
  with serial A at host 10.0.0.1, and then the printer with serial A seen at host
  10.0.0.2.
\<close>

definition body_ser :: "string \<Rightarrow> string \<Rightarrow> metrics_body" where
  "body_ser h ser = (body_host h)\<lparr> b_serial := Some ser \<rparr>"

definition dev_hs :: "oid \<Rightarrow> string \<Rightarrow> string \<Rightarrow> millis \<Rightarrow> impresora" where
  "dev_hs k h ser t =
     \<lparr> imp_id = k, empresaId = 1, ciudad = None, host = h, serial = Some ser,
       sysName = None, sysDescr = None, printerName = None, model = None,
       createdAt = Date t \<rparr>"

definition latest_seen :: "oid \<Rightarrow> millis \<Rightarrow> latest_doc" where
  "latest_seen k t =
     \<lparr> printerId = k, lastPageCount = None, lastPageMono = None, lastPageColor = None,
       lastSupplies = Some [], lastSeenAt = Some (Date t), lowToner = Some False,
       online = Some True, ultimoCorteId = None, lastCutDate = None \<rparr>"

definition moved1 :: store where
  "moved1 = snd (post_metrics rt0 no_fail 1000 store0 hdr0 (body_ser ''10.0.0.2'' ''B''))"

definition moved2 :: store where
  "moved2 = snd (post_metrics rt0 no_fail 2000 moved1 hdr0 (body_ser ''10.0.0.1'' ''A''))"

definition moved3 :: store where
  "moved3 = snd (post_metrics rt0 no_fail 3000 moved2 hdr0 (body_ser ''10.0.0.2'' ''A''))"

section \<open>Readings of the specification\<close>

text \<open>
  Section 4.4 of the specification on \<open>snmpOk\<close>: true if any of "pageCount present and
  numeric, supplies non-empty, any identity string present". The identity strings of a
  report are those of section 3: serial number, human-readable name, and the model and
  description strings.
\<close>

definition spec_identity_present :: "metrics_body \<Rightarrow> bool" where
  "spec_identity_present b =
     (b_serial b \<noteq> None \<or> b_printerName b \<noteq> None \<or> b_sysName b \<noteq> None \<or>
      b_sysDescr b \<noteq> None \<or> b_model b \<noteq> None)"

definition spec_snmpOk :: "metrics_body \<Rightarrow> bool" where
  "spec_snmpOk b =
     (b_pageCount b \<noteq> None \<or>
      (case b_supplies b of None \<Rightarrow> False | Some xs \<Rightarrow> xs \<noteq> []) \<or>
      spec_identity_present b)"

text \<open>
  Section 4.4 of the specification on the device of a report: "Resolve/create the Device
  by matching (tenant, serial) if serial present, else (tenant, host)".
\<close>

definition spec_clave :: "oid \<Rightarrow> string option \<Rightarrow> string \<Rightarrow> impresora \<Rightarrow> bool" where
  "spec_clave eid ser h d =
     (empresaId d = eid \<and> (if truthy ser then serial d = ser else host d = h))"

text \<open>
  Section 3 of the specification on devices: "unique within a tenant by serial number
  when present, else by host address". The key of a device is its tenant with its serial
  number when it has one, and with its host otherwise; no two devices share a key.
\<close>

definition spec_key :: "impresora \<Rightarrow> oid \<times> (string + string)" where
  "spec_key d = (empresaId d, if truthy (serial d) then Inl (the (serial d)) else Inr (host d))"

definition spec_unique :: "impresora list \<Rightarrow> bool" where
  "spec_unique ds = distinct (map spec_key ds)"





section \<open>Properties of the pure functions\<close>

text \<open>
  C1. With a previous cut whose end counter is \<open>E\<close> and a latest state whose page count
  is \<open>C\<close> (a missing count reads as 0), the calculator returns start \<open>E\<close>, end \<open>C\<close>,
  total \<open>max 0 (C - E)\<close> and \<open>esPrimerCorte = False\<close>; the total is never negative, and
  it is 0 when the counter went down.
\<close>

theorem calcularPeriodoCorte_previous_cut:
  assumes "contadorFinGeneral uc = Some E"
    and "C = or0 (lastPageCount latest)"
  shows "calc_contadorInicioGeneral (calcularPeriodoCorte rt (Some uc) latest ahora) = E
       \<and> calc_contadorFinGeneral (calcularPeriodoCorte rt (Some uc) latest ahora) = C
       \<and> calc_totalPaginasGeneral (calcularPeriodoCorte rt (Some uc) latest ahora) = max 0 (C - E)
       \<and> calc_esPrimerCorte (calcularPeriodoCorte rt (Some uc) latest ahora) = False
       \<and> 0 \<le> calc_totalPaginasGeneral (calcularPeriodoCorte rt (Some uc) latest ahora)
       \<and> (C < E \<longrightarrow> calc_totalPaginasGeneral (calcularPeriodoCorte rt (Some uc) latest ahora) = 0)"
  using assms by (simp add: calcularPeriodoCorte_def Let_def)

theorem calcularPeriodoCorte_previous_cut_witness:
  "calc_contadorInicioGeneral (calcularPeriodoCorte rt0 (Some (sample_corte 1500)) (sample_latest (Some 200)) 5) = 1500
   \<and> calc_contadorFinGeneral (calcularPeriodoCorte rt0 (Some (sample_corte 1500)) (sample_latest (Some 200)) 5) = 200
   \<and> calc_totalPaginasGeneral (calcularPeriodoCorte rt0 (Some (sample_corte 1500)) (sample_latest (Some 200)) 5) = 0
   \<and> calc_esPrimerCorte (calcularPeriodoCorte rt0 (Some (sample_corte 1500)) (sample_latest (Some 200)) 5) = False"
  using calcularPeriodoCorte_previous_cut
          [of "sample_corte 1500" 1500 200 "sample_latest (Some 200)" rt0 5]
  by (simp add: sample_corte_def sample_latest_def)

text \<open>
  C2. Without a previous cut the calculator returns start 0, the page count of the
  latest state (0 when it is missing) as end and as total, the label
  \<^verbatim>\<open>Desde instalaci\<acute>on\<close> and \<open>esPrimerCorte = True\<close>.
\<close>

theorem calcularPeriodoCorte_first_cut:
  "calcularPeriodoCorte rt None latest ahora =
     \<lparr> calc_contadorInicioGeneral = 0,
       calc_contadorFinGeneral = or0 (lastPageCount latest),
       calc_totalPaginasGeneral = or0 (lastPageCount latest),
       calc_periodo = Desde_instalacion,
       calc_esPrimerCorte = True \<rparr>"
  by (simp add: calcularPeriodoCorte_def Let_def)

theorem calcularPeriodoCorte_first_cut_witness:
  "calcularPeriodoCorte rt0 None (sample_latest (Some 1500)) 5 =
     \<lparr> calc_contadorInicioGeneral = 0, calc_contadorFinGeneral = 1500,
       calc_totalPaginasGeneral = 1500, calc_periodo = Desde_instalacion,
       calc_esPrimerCorte = True \<rparr>
   \<and> calcularPeriodoCorte rt0 None (sample_latest None) 5 =
     \<lparr> calc_contadorInicioGeneral = 0, calc_contadorFinGeneral = 0,
       calc_totalPaginasGeneral = 0, calc_periodo = Desde_instalacion,
       calc_esPrimerCorte = True \<rparr>"
  using calcularPeriodoCorte_first_cut [of rt0 "sample_latest (Some 1500)" 5]
        calcularPeriodoCorte_first_cut [of rt0 "sample_latest None" 5]
  by (simp add: sample_latest_def)

text \<open>
  C3. The derived online state is false without a snapshot, without a last-seen
  timestamp, with one that does not parse, and with the raw online flag equal to
  false. Otherwise it is true exactly when \<open>now - lastSeen\<close> is at most the
  staleness threshold, whose default is 120000 ms; at the threshold the state is
  true and one millisecond later it is false.
\<close>

theorem computeDerivedOnline_spec:
  "computeDerivedOnline stale None now = False
   \<and> (lastSeenAt l = None \<longrightarrow> computeDerivedOnline stale (Some l) now = False)
   \<and> (lastSeenAt l = Some InvalidDate \<longrightarrow> computeDerivedOnline stale (Some l) now = False)
   \<and> (online l = Some False \<longrightarrow> computeDerivedOnline stale (Some l) now = False)
   \<and> (lastSeenAt l = Some (Date ts) \<and> online l \<noteq> Some False \<longrightarrow>
        (computeDerivedOnline (Fin t) (Some l) now \<longleftrightarrow> of_int (now - ts) \<le> t)
        \<and> computeDerivedOnline (Fin (of_int T)) (Some l) (ts + T)
        \<and> \<not> computeDerivedOnline (Fin (of_int T)) (Some l) (ts + T + 1)
        \<and> computeDerivedOnline (ONLINE_STALE_MS None) (Some l) (ts + 120000)
        \<and> \<not> computeDerivedOnline (ONLINE_STALE_MS None) (Some l) (ts + 120001))
   \<and> ONLINE_STALE_MS None = Fin 120000"
  by (auto simp: computeDerivedOnline_def ONLINE_STALE_MS_def split: option.splits)

theorem computeDerivedOnline_spec_witness:
  "computeDerivedOnline (ONLINE_STALE_MS None) (Some (sample_latest None)) 121000
   \<and> \<not> computeDerivedOnline (ONLINE_STALE_MS None) (Some (sample_latest None)) 121001
   \<and> \<not> computeDerivedOnline (ONLINE_STALE_MS None)
         (Some ((sample_latest None)\<lparr> online := Some False \<rparr>)) 1000
   \<and> \<not> computeDerivedOnline (ONLINE_STALE_MS None)
         (Some ((sample_latest None)\<lparr> lastSeenAt := None \<rparr>)) 1000
   \<and> \<not> computeDerivedOnline (ONLINE_STALE_MS None)
         (Some ((sample_latest None)\<lparr> lastSeenAt := Some InvalidDate \<rparr>)) 1000"
  using computeDerivedOnline_spec
          [where stale = "ONLINE_STALE_MS None" and now = 0 and l = "sample_latest None"
             and ts = 1000 and t = 120000 and T = 120000]
        computeDerivedOnline_spec
          [where stale = "ONLINE_STALE_MS None" and now = 1000
             and l = "(sample_latest None)\<lparr> online := Some False \<rparr>"]
        computeDerivedOnline_spec
          [where stale = "ONLINE_STALE_MS None" and now = 1000
             and l = "(sample_latest None)\<lparr> lastSeenAt := None \<rparr>"]
        computeDerivedOnline_spec
          [where stale = "ONLINE_STALE_MS None" and now = 1000
             and l = "(sample_latest None)\<lparr> lastSeenAt := Some InvalidDate \<rparr>"]
  by (simp add: sample_latest_def ONLINE_STALE_MS_def)

section \<open>Properties of the telemetry ingestion\<close>

lemma find_append_cases:
  "find P (xs @ ys) = (case find P xs of None \<Rightarrow> find P ys | Some x \<Rightarrow> Some x)"
  by (induction xs) auto

lemma find_update_first:
  "(\<And>x. P (f x) = P x) \<Longrightarrow> find P (update_first P f xs) = map_option f (find P xs)"
  by (induction xs) auto

lemma find_upsert_latest:
  assumes "\<And>l. printerId (f l) = printerId l"
  shows "\<exists>l0. find (\<lambda>l. printerId l = pid) (upsert_latest pid f ls) = Some (f l0)"
proof (cases "find (\<lambda>l. printerId l = pid) ls")
  case None
  then show ?thesis
    by (auto simp: upsert_latest_def find_append_cases assms)
next
  case (Some a)
  then show ?thesis
    using find_update_first [of "\<lambda>l. printerId l = pid" f ls] assms
    by (auto simp: upsert_latest_def)
qed

text \<open>What an ingestion that answers 200 has done.\<close>

lemma post_metrics_Inr:
  assumes "post_metrics rt fails now s hdr b = (Inr ok, s')"
  shows "\<exists>tok emp h. bearer_token hdr = Some tok \<and> tok \<noteq> []
           \<and> find (\<lambda>e. apiKey e = tok) (empresas s) = Some emp
           \<and> b_host b = Some h \<and> h \<noteq> []
           \<and> ok_printerId ok = imp_id (fst (upsert_impresora now (empresa_id emp) b h (impresoras s)))
           \<and> ok_empresaId ok = empresa_id emp
           \<and> impresoras s' = snd (upsert_impresora now (empresa_id emp) b h (impresoras s))
           \<and> latests s' = upsert_latest (ok_printerId ok) (set_latest rt now b) (latests s)
           \<and> cortes s' = cortes s \<and> empresas s' = empresas s"
  using assms
  by (cases "b_host b")
     (auto simp: post_metrics_def Let_def split: option.splits if_splits prod.splits)

lemma post_metrics_latest:
  assumes "post_metrics rt fails now s hdr b = (Inr ok, s')"
  shows "\<exists>l0. find_latest s' (ok_printerId ok) = Some (set_latest rt now b l0)"
proof -
  from post_metrics_Inr [OF assms]
  have "latests s' = upsert_latest (ok_printerId ok) (set_latest rt now b) (latests s)"
    by blast
  moreover have "\<And>l. printerId (set_latest rt now b l) = printerId l"
    by (simp add: set_latest_def)
  ultimately show ?thesis
    using find_upsert_latest [of "set_latest rt now b" "ok_printerId ok" "latests s"]
    by (simp add: find_latest_def)
qed

text \<open>Two ingestions into the sample store, evaluated.\<close>

lemma post_metrics_store0_host:
  "post_metrics rt0 no_fail 1000 store0 hdr0 ((body_host ''10.0.0.5'')\<lparr> b_printerName := Some ''Oficina'' \<rparr>) =
     (Inr \<lparr> ok_printerId = 1, ok_empresaId = 1, ok_agentVersion = ''1.0.0'' \<rparr>,
      store0\<lparr> impresoras :=
                 [\<lparr> imp_id = 1, empresaId = 1, ciudad = None, host = ''10.0.0.5'',
                    serial = None, sysName = None, sysDescr = None,
                    printerName = Some ''Oficina'', model = None, createdAt = Date 1000 \<rparr>],
               latests :=
                 [\<lparr> printerId = 1, lastPageCount = None, lastPageMono = None,
                    lastPageColor = None, lastSupplies = Some [],
                    lastSeenAt = Some (Date 1000), lowToner = Some False,
                    online = Some False, ultimoCorteId = None, lastCutDate = None \<rparr>] \<rparr>)"
  by (simp add: post_metrics_def no_fail_def store0_def hdr0_def body_host_def bearer_token_def
        upsert_impresora_def upsert_latest_def set_latest_def setBase_def fresh_id_def
        lowToner_of_def snmpOk_of_def Let_def)

lemma post_metrics_store0_full:
  "post_metrics rt0 no_fail 1000 store0 hdr0 (body_full ''10.0.0.5'' ''A1'' 1500 15) =
     (Inr \<lparr> ok_printerId = 1, ok_empresaId = 1, ok_agentVersion = ''1.0.0'' \<rparr>, store1)"
  by (simp add: post_metrics_def no_fail_def store0_def hdr0_def body_full_def bearer_token_def
        upsert_impresora_def upsert_latest_def set_latest_def setBase_def fresh_id_def
        lowToner_of_def snmpOk_of_def supply_low_def Let_def store1_def dev1_def
        latest_at_def black_def rt0_def d015_def d06_def d02_def)

text \<open>
  C8, as the specification words it, fails: a report whose only identity string is the
  printer's name (beside the host) is stored with the raw online flag false.
\<close>

theorem snmpOk_counterexample:
  "spec_snmpOk ((body_host ''10.0.0.5'')\<lparr> b_printerName := Some ''Oficina'' \<rparr>)
   \<and> \<not> snmpOk_of ((body_host ''10.0.0.5'')\<lparr> b_printerName := Some ''Oficina'' \<rparr>)
   \<and> map online (latests (snd (post_metrics rt0 no_fail 1000 store0 hdr0
         ((body_host ''10.0.0.5'')\<lparr> b_printerName := Some ''Oficina'' \<rparr>)))) = [Some False]"
  by (simp add: post_metrics_store0_host)
     (simp add: spec_snmpOk_def spec_identity_present_def snmpOk_of_def body_host_def)

text \<open>
  C8, amended. After an ingestion that answers 200, the raw online flag of the
  device's latest state is true exactly when the page count is a number, or the
  supplies are a non-empty array, or one of \<^verbatim>\<open>sysName\<close>, \<^verbatim>\<open>sysDescr\<close>,
  \<^verbatim>\<open>serial\<close>, \<^verbatim>\<open>model\<close> is a non-empty string; the printer's name and the host
  do not count.
\<close>

theorem snmpOk_stored:
  assumes "post_metrics rt fails now s hdr b = (Inr ok, s')"
  shows "\<exists>l. find_latest s' (ok_printerId ok) = Some l
           \<and> (online l = Some True \<or> online l = Some False)
           \<and> (online l = Some True \<longleftrightarrow>
                b_pageCount b \<noteq> None
                \<or> (\<exists>xs. b_supplies b = Some xs \<and> xs \<noteq> [])
                \<or> (\<exists>v. v \<noteq> [] \<and> (b_sysName b = Some v \<or> b_sysDescr b = Some v
                                      \<or> b_serial b = Some v \<or> b_model b = Some v)))"
proof -
  obtain l0 where l0: "find_latest s' (ok_printerId ok) = Some (set_latest rt now b l0)"
    using post_metrics_latest [OF assms] by blast
  have on: "online (set_latest rt now b l0) = Some (snmpOk_of b)"
    by (simp add: set_latest_def)
  have tr: "\<And>x. truthy x \<longleftrightarrow> (\<exists>v. v \<noteq> [] \<and> x = Some v)"
    by (case_tac x) auto
  have "snmpOk_of b \<longleftrightarrow>
          b_pageCount b \<noteq> None
          \<or> (\<exists>xs. b_supplies b = Some xs \<and> xs \<noteq> [])
          \<or> (\<exists>v. v \<noteq> [] \<and> (b_sysName b = Some v \<or> b_sysDescr b = Some v
                                \<or> b_serial b = Some v \<or> b_model b = Some v))"
    unfolding snmpOk_of_def tr by (cases "b_supplies b") auto
  with l0 on show ?thesis by auto
qed

theorem snmpOk_stored_witness:
  "\<exists>l. find_latest (snd (post_metrics rt0 no_fail 1000 store0 hdr0 (body_full ''10.0.0.5'' ''A1'' 1500 15))) 1 = Some l
        \<and> online l = Some True"
  using snmpOk_stored [OF post_metrics_store0_full]
  by (simp add: post_metrics_store0_full) (auto simp: body_full_def)








section \<open>Properties of the cut ledger\<close>

lemma fold_max_ge: "x \<in> set ids \<Longrightarrow> x \<le> fold max ids (a::nat)"
proof (induction ids arbitrary: a)
  case Nil
  then show ?case by simp
next
  case (Cons y ys)
  have mono: "\<And>b. b \<le> fold max ys b"
  proof -
    fix b show "b \<le> fold max ys b"
      by (induction ys arbitrary: b) (auto intro: order_trans [OF max.cobounded2])
  qed
  from Cons show ?case
  proof (cases "x = y")
    case True
    have "y \<le> max y a" by simp
    also have "\<dots> \<le> fold max ys (max y a)" by (rule mono)
    finally show ?thesis using True by simp
  next
    case False
    with Cons show ?thesis by simp
  qed
qed

lemma fresh_id_fresh: "fresh_id ids \<notin> set ids"
proof
  assume "fresh_id ids \<in> set ids"
  then have "fresh_id ids \<le> fold max ids 0" by (rule fold_max_ge)
  then show False by (simp add: fresh_id_def)
qed

lemma find_None_iff_id: "find (\<lambda>c. g c = k) xs = None \<longleftrightarrow> k \<notin> set (map g xs)"
  by (induction xs) auto

lemma find_corte_new:
  assumes "corte_id c = fresh_id (map corte_id (cortes s))"
  shows "find_corte (s\<lparr> cortes := cortes s @ [c] \<rparr>) (corte_id c) = Some c"
proof -
  have "corte_id c \<notin> set (map corte_id (cortes s))"
    using fresh_id_fresh [of "map corte_id (cortes s)"] assms by simp
  then have "find (\<lambda>x. corte_id x = corte_id c) (cortes s) = None"
    using find_None_iff_id [of corte_id "corte_id c" "cortes s"] by blast
  then show ?thesis
    by (simp add: find_corte_def find_append_cases)
qed

lemma corte_id_nuevoCorte:
  "corte_id (nuevoCorte rt ahora s pid imp latest uc) = fresh_id (map corte_id (cortes s))"
  by (simp add: nuevoCorte_def Let_def)

text \<open>The sample run, evaluated.\<close>

lemma run_corte1:
  "registrar_corte rt0 no_fail 2000 store1 1 =
     (Inr \<lparr> ok_corteId = 1, ok_inicio = 0, ok_fin = 1500, ok_totalPaginas = 1500,
            ok_fecha = ''1/1/1970'' \<rparr>,
      [store1, store1c, store2])"
  by (simp add: registrar_corte_def no_fail_def store1_def store1c_def store2_def store0_def
        find_impresora_def find_latest_def find_corte_def dev1_def latest_at_def
        nuevoCorte_def calcularPeriodoCorte_def corte1_def rt0_def fresh_id_def
        set_ultimoCorte_def or_opt_def black_def Let_def)

lemma run_metrics2:
  "post_metrics rt0 no_fail 90000000 store2 hdr0 (body_full ''10.0.0.5'' ''A1'' 1800 60) =
     (Inr \<lparr> ok_printerId = 1, ok_empresaId = 1, ok_agentVersion = ''1.0.0'' \<rparr>, store3)"
  by (simp add: post_metrics_def no_fail_def store0_def hdr0_def body_full_def bearer_token_def
        upsert_impresora_def upsert_latest_def set_latest_def setBase_def claveOr_def
        lowToner_of_def snmpOk_of_def supply_low_def Let_def store1_def store1c_def
        store2_def store3_def dev1_def latest_at_def black_def rt0_def d015_def d06_def
        d02_def)

lemma run_corte2:
  "registrar_corte rt0 no_fail 90001000 store3 1 =
     (Inr \<lparr> ok_corteId = 2, ok_inicio = 1500, ok_fin = 1800, ok_totalPaginas = 300,
            ok_fecha = ''1/2/1970'' \<rparr>,
      [store3, store3c, store4])"
  by (simp add: registrar_corte_def no_fail_def store1_def store1c_def store2_def store3_def
        store3c_def store4_def store0_def
        find_impresora_def find_latest_def find_corte_def dev1_def latest_at_def
        nuevoCorte_def calcularPeriodoCorte_def corte1_def corte2_def rt0_def fresh_id_def
        set_ultimoCorte_def or_opt_def black_def Let_def)

lemma run_pdf:
  "generar_pdf rt0 no_fail 90002000 store4 1 =
     Inr \<lparr> pdf_empresa = ''Acme'', pdf_impresora = ''prn'', pdf_modelo = ''M1'',
           pdf_serie = ''A1'', pdf_ubicacion = ''N/A'', pdf_periodo = Desde_instalacion,
           pdf_inicio = ''1,500'', pdf_fin = ''1,800'', pdf_total = ''300'' \<rparr>"
  by (simp add: generar_pdf_def generarPDFProfesional_def no_fail_def store1_def store1c_def
        store2_def store3_def store3c_def store4_def store0_def
        find_impresora_def find_latest_def find_corte_def dev1_def latest_at_def
        calcularPeriodoCorte_def corte1_def corte2_def rt0_def
        or_opt_def or_str_def Desde_instalacion_def Let_def)



text \<open>
  C5. When the device does not exist, or no latest state exists for it, the
  registration answers 404 and writes nothing: the only state of the store it goes
  through is the one it started from, so no cut is created.
\<close>

theorem registrar_corte_not_found:
  "(\<not> fails FindImpresora \<and> find_impresora s pid = None \<longrightarrow>
      registrar_corte rt fails ahora s pid = (Inl ImpresoraNoEncontrada, [s]))
   \<and> (\<not> fails FindImpresora \<and> \<not> fails FindLatest \<and> find_impresora s pid \<noteq> None
        \<and> find_latest s pid = None \<longrightarrow>
      registrar_corte rt fails ahora s pid = (Inl DatosNoEncontrados, [s]))
   \<and> status ImpresoraNoEncontrada = 404 \<and> status DatosNoEncontrados = 404"
  by (auto simp: registrar_corte_def)

theorem registrar_corte_not_found_witness:
  "registrar_corte rt0 no_fail 2000 store0 1 = (Inl ImpresoraNoEncontrada, [store0])
   \<and> registrar_corte rt0 no_fail 2000 (store1\<lparr> latests := [] \<rparr>) 1
       = (Inl DatosNoEncontrados, [store1\<lparr> latests := [] \<rparr>])"
  using registrar_corte_not_found [of no_fail store0 1 rt0 2000]
        registrar_corte_not_found [of no_fail "store1\<lparr> latests := [] \<rparr>" 1 rt0 2000]
  by (simp add: no_fail_def find_impresora_def find_latest_def store0_def store1_def dev1_def)

lemma list_all_update_first:
  "list_all Q xs \<Longrightarrow> (\<And>x. Q x \<Longrightarrow> Q (f x)) \<Longrightarrow> list_all Q (update_first P f xs)"
  by (induction xs) auto

lemma pointers_ok_add_cut:
  assumes "pointers_ok s"
  shows "pointers_ok (s\<lparr> cortes := cortes s @ [c] \<rparr>)"
proof -
  have "find_corte (s\<lparr> cortes := cortes s @ [c] \<rparr>) k \<noteq> None" if "find_corte s k \<noteq> None" for k
    using that by (auto simp: find_corte_def find_append_cases)
  then have "list_all (\<lambda>l. case ultimoCorteId l of None \<Rightarrow> True
                           | Some k \<Rightarrow> find_corte (s\<lparr> cortes := cortes s @ [c] \<rparr>) k \<noteq> None)
               (latests s)"
    using assms unfolding pointers_ok_def list_all_iff
    by (auto split: option.splits)
  then show ?thesis by (simp add: pointers_ok_def)
qed

lemma pointers_ok_set_pointer:
  assumes "pointers_ok s" and "find_corte s k \<noteq> None"
  shows "pointers_ok (s\<lparr> latests := update_first P (set_ultimoCorte k ahora) (latests s) \<rparr>)"
proof -
  have same: "\<And>j ls. find_corte (s\<lparr> latests := ls \<rparr>) j = find_corte s j"
    by (simp add: find_corte_def)
  have "list_all (\<lambda>l. case ultimoCorteId l of None \<Rightarrow> True | Some j \<Rightarrow> find_corte s j \<noteq> None)
          (update_first P (set_ultimoCorte k ahora) (latests s))"
    using assms
    by (intro list_all_update_first) (auto simp: pointers_ok_def set_ultimoCorte_def)
  then show ?thesis by (simp add: pointers_ok_def same cong: option.case_cong)
qed

text \<open>The states a registration goes through, whatever it answers.\<close>

lemma registrar_corte_trace:
  "snd (registrar_corte rt fails ahora s pid) = [s]
   \<or> (\<exists>nuevo. \<not> fails SaveCorte
         \<and> corte_id nuevo = fresh_id (map corte_id (cortes s))
         \<and> (snd (registrar_corte rt fails ahora s pid) = [s, s\<lparr> cortes := cortes s @ [nuevo] \<rparr>]
            \<or> snd (registrar_corte rt fails ahora s pid) =
                 [s, s\<lparr> cortes := cortes s @ [nuevo] \<rparr>,
                  s\<lparr> cortes := cortes s @ [nuevo],
                     latests := update_first (\<lambda>l. printerId l = pid)
                                  (set_ultimoCorte (corte_id nuevo) ahora) (latests s) \<rparr>]))"
proof (cases "find_impresora s pid")
  case None
  then show ?thesis by (simp add: registrar_corte_def)
next
  case imp: (Some imp)
  show ?thesis
  proof (cases "find_latest s pid")
    case None
    with imp show ?thesis by (simp add: registrar_corte_def)
  next
    case latest: (Some latest)
    define nuevo where
      "nuevo = nuevoCorte rt ahora s pid imp latest
                 (case ultimoCorteId latest of None \<Rightarrow> None | Some k \<Rightarrow> find_corte s k)"
    have idn: "corte_id nuevo = fresh_id (map corte_id (cortes s))"
      by (simp add: nuevo_def corte_id_nuevoCorte)
    show ?thesis
    proof (cases "fails FindImpresora \<or> fails FindLatest
                  \<or> (ultimoCorteId latest \<noteq> None \<and> fails FindCorte) \<or> fails SaveCorte")
      case True
      with imp latest show ?thesis by (auto simp: registrar_corte_def Let_def)
    next
      case False
      with imp latest
      have "snd (registrar_corte rt fails ahora s pid) = [s, s\<lparr> cortes := cortes s @ [nuevo] \<rparr>]
            \<or> snd (registrar_corte rt fails ahora s pid) =
                 [s, s\<lparr> cortes := cortes s @ [nuevo] \<rparr>,
                  s\<lparr> cortes := cortes s @ [nuevo],
                     latests := update_first (\<lambda>l. printerId l = pid)
                                  (set_ultimoCorte (corte_id nuevo) ahora) (latests s) \<rparr>]"
        by (auto simp: registrar_corte_def Let_def nuevo_def)
      with idn False show ?thesis by blast
    qed
  qed
qed

text \<open>
  C6. A registration goes through at most three states of the store, in this order:
  the one it starts from, the one with the new cut appended, and the one where the
  latest state points to that cut. The pointer is written only after the write
  of the cut has completed: when that write fails, nothing is written at all, and in
  the state where the pointer is set the store holds the cut under the identifier that
  the pointer has. Hence, if every latest-cut pointer referenced a stored cut before the
  registration, so it does in every state the registration goes through.
\<close>

theorem registrar_corte_order:
  assumes "registrar_corte rt fails ahora s pid = (r, tr)"
  shows "(tr = [s]
          \<or> (\<exists>nuevo s1. s1 = s\<lparr> cortes := cortes s @ [nuevo] \<rparr>
                \<and> \<not> fails SaveCorte
                \<and> find_corte s1 (corte_id nuevo) = Some nuevo
                \<and> latests s1 = latests s
                \<and> (tr = [s, s1]
                   \<or> tr = [s, s1, s1\<lparr> latests := update_first (\<lambda>l. printerId l = pid)
                                         (set_ultimoCorte (corte_id nuevo) ahora) (latests s1) \<rparr>])))
         \<and> (fails SaveCorte \<longrightarrow> tr = [s])
         \<and> (pointers_ok s \<longrightarrow> list_all pointers_ok tr)"
proof -
  from assms have tr: "snd (registrar_corte rt fails ahora s pid) = tr" by simp
  consider (none) "tr = [s]"
    | (some) nuevo where "\<not> fails SaveCorte"
        "corte_id nuevo = fresh_id (map corte_id (cortes s))"
        "tr = [s, s\<lparr> cortes := cortes s @ [nuevo] \<rparr>]
         \<or> tr = [s, s\<lparr> cortes := cortes s @ [nuevo] \<rparr>,
                 s\<lparr> cortes := cortes s @ [nuevo],
                    latests := update_first (\<lambda>l. printerId l = pid)
                                 (set_ultimoCorte (corte_id nuevo) ahora) (latests s) \<rparr>]"
    using registrar_corte_trace [of rt fails ahora s pid] unfolding tr by blast
  then show ?thesis
  proof cases
    case none
    then show ?thesis by simp
  next
    case some
    define s1 where "s1 = s\<lparr> cortes := cortes s @ [nuevo] \<rparr>"
    define s2 where "s2 = s1\<lparr> latests := update_first (\<lambda>l. printerId l = pid)
                                   (set_ultimoCorte (corte_id nuevo) ahora) (latests s1) \<rparr>"
    have found: "find_corte s1 (corte_id nuevo) = Some nuevo"
      unfolding s1_def using some(2) by (rule find_corte_new)
    have lat: "latests s1 = latests s" by (simp add: s1_def)
    have shape: "tr = [s, s1] \<or> tr = [s, s1, s2]"
      using some(3) by (simp add: s1_def s2_def)
    have inv: "list_all pointers_ok tr" if ok: "pointers_ok s"
    proof -
      have ok1: "pointers_ok s1" unfolding s1_def using ok by (rule pointers_ok_add_cut)
      have ok2: "pointers_ok s2" unfolding s2_def
        using ok1 found by (intro pointers_ok_set_pointer) simp_all
      from shape ok ok1 ok2 show ?thesis by auto
    qed
    from found lat shape inv some(1) show ?thesis
      unfolding s1_def s2_def by blast
  qed
qed

theorem registrar_corte_order_witness:
  "pointers_ok store3
   \<and> list_all pointers_ok [store3, store3c, store4]
   \<and> snd (registrar_corte rt0 (\<lambda>c. c = SaveCorte) 90001000 store3 1) = [store3]"
proof -
  have ok: "pointers_ok store3"
    by (simp add: pointers_ok_def find_corte_def store0_def store1_def store1c_def store2_def
          store3_def latest_at_def corte1_def)
  have "pointers_ok store3 \<longrightarrow> list_all pointers_ok [store3, store3c, store4]"
    using registrar_corte_order [OF run_corte2] by blast
  moreover
  have "snd (registrar_corte rt0 (\<lambda>c. c = SaveCorte) 90001000 store3 1) = [store3]"
    using registrar_corte_order
            [of rt0 "\<lambda>c. c = SaveCorte" 90001000 store3 1
                "fst (registrar_corte rt0 (\<lambda>c. c = SaveCorte) 90001000 store3 1)"
                "snd (registrar_corte rt0 (\<lambda>c. c = SaveCorte) 90001000 store3 1)"]
    by simp
  ultimately show ?thesis using ok by blast
qed

section \<open>The device of a report\<close>

lemma claveOr_iff:
  "claveOr eid ser h d \<longleftrightarrow>
     empresaId d = eid \<and> (host d = h \<or> (truthy ser \<and> serial d = ser))"
  by (auto simp: claveOr_def)

lemma update_first_length: "length (update_first P f xs) = length xs"
  by (induction xs) auto

lemma update_first_map:
  "(\<And>x. g (f x) = g x) \<Longrightarrow> map g (update_first P f xs) = map g xs"
  by (induction xs) auto

lemma update_first_member: "find P xs = Some d \<Longrightarrow> f d \<in> set (update_first P f xs)"
  by (induction xs) (auto split: if_splits)

lemma setBase_fields:
  "imp_id (setBase eid b h d) = imp_id d \<and> createdAt (setBase eid b h d) = createdAt d
   \<and> empresaId (setBase eid b h d) = eid \<and> host (setBase eid b h d) = h
   \<and> serial (setBase eid b h d) = b_serial b \<and> sysName (setBase eid b h d) = b_sysName b
   \<and> sysDescr (setBase eid b h d) = b_sysDescr b
   \<and> printerName (setBase eid b h d) = b_printerName b
   \<and> model (setBase eid b h d) = b_model b"
  by (simp add: setBase_def)

text \<open>The three reports, evaluated.\<close>

lemma moved1_eval:
  "post_metrics rt0 no_fail 1000 store0 hdr0 (body_ser ''10.0.0.2'' ''B'') =
     (Inr \<lparr> ok_printerId = 1, ok_empresaId = 1, ok_agentVersion = ''1.0.0'' \<rparr>,
      store0\<lparr> impresoras := [dev_hs 1 ''10.0.0.2'' ''B'' 1000], latests := [latest_seen 1 1000] \<rparr>)"
  by (simp add: post_metrics_def no_fail_def store0_def hdr0_def body_ser_def body_host_def
        bearer_token_def upsert_impresora_def upsert_latest_def set_latest_def setBase_def
        fresh_id_def lowToner_of_def snmpOk_of_def Let_def dev_hs_def latest_seen_def)

lemma moved1_store:
  "moved1 = store0\<lparr> impresoras := [dev_hs 1 ''10.0.0.2'' ''B'' 1000],
                     latests := [latest_seen 1 1000] \<rparr>"
  by (simp only: moved1_def moved1_eval snd_conv)

lemma moved2_eval:
  "post_metrics rt0 no_fail 2000 moved1 hdr0 (body_ser ''10.0.0.1'' ''A'') =
     (Inr \<lparr> ok_printerId = 2, ok_empresaId = 1, ok_agentVersion = ''1.0.0'' \<rparr>,
      store0\<lparr> impresoras := [dev_hs 1 ''10.0.0.2'' ''B'' 1000, dev_hs 2 ''10.0.0.1'' ''A'' 2000],
               latests := [latest_seen 1 1000, latest_seen 2 2000] \<rparr>)"
  by (simp add: moved1_store post_metrics_def no_fail_def store0_def hdr0_def body_ser_def body_host_def
        bearer_token_def upsert_impresora_def upsert_latest_def set_latest_def setBase_def
        claveOr_def fresh_id_def lowToner_of_def snmpOk_of_def Let_def dev_hs_def
        latest_seen_def)

lemma moved2_store:
  "moved2 = store0\<lparr> impresoras := [dev_hs 1 ''10.0.0.2'' ''B'' 1000, dev_hs 2 ''10.0.0.1'' ''A'' 2000],
                     latests := [latest_seen 1 1000, latest_seen 2 2000] \<rparr>"
  by (simp only: moved2_def moved2_eval snd_conv)

lemma moved3_eval:
  "post_metrics rt0 no_fail 3000 moved2 hdr0 (body_ser ''10.0.0.2'' ''A'') =
     (Inr \<lparr> ok_printerId = 1, ok_empresaId = 1, ok_agentVersion = ''1.0.0'' \<rparr>,
      store0\<lparr> impresoras := [dev_hs 1 ''10.0.0.2'' ''A'' 1000, dev_hs 2 ''10.0.0.1'' ''A'' 2000],
               latests := [latest_seen 1 3000, latest_seen 2 2000] \<rparr>)"
  by (simp add: moved2_store post_metrics_def no_fail_def store0_def hdr0_def body_ser_def body_host_def
        bearer_token_def upsert_impresora_def upsert_latest_def set_latest_def setBase_def
        claveOr_def fresh_id_def lowToner_of_def snmpOk_of_def Let_def dev_hs_def
        latest_seen_def)

lemma moved3_store:
  "moved3 = store0\<lparr> impresoras := [dev_hs 1 ''10.0.0.2'' ''A'' 1000, dev_hs 2 ''10.0.0.1'' ''A'' 2000],
                     latests := [latest_seen 1 3000, latest_seen 2 2000] \<rparr>"
  by (simp only: moved3_def moved3_eval snd_conv)

lemma replaced_eval:
  "post_metrics rt0 no_fail 2000 moved1 hdr0 (body_ser ''10.0.0.2'' ''A'') =
     (Inr \<lparr> ok_printerId = 1, ok_empresaId = 1, ok_agentVersion = ''1.0.0'' \<rparr>,
      store0\<lparr> impresoras := [dev_hs 1 ''10.0.0.2'' ''A'' 1000], latests := [latest_seen 1 2000] \<rparr>)"
  by (simp add: moved1_store post_metrics_def no_fail_def store0_def hdr0_def body_ser_def body_host_def
        bearer_token_def upsert_impresora_def upsert_latest_def set_latest_def setBase_def
        claveOr_def fresh_id_def lowToner_of_def snmpOk_of_def Let_def dev_hs_def
        latest_seen_def)

text \<open>
  C7, as the specification words it, fails. The store holds one device of the tenant,
  with serial B at host 10.0.0.2; a report with serial A from that host matches no
  device by (tenant, serial), yet the route resolves it to the device that is there and
  creates none. And after the three reports above, of which each finds the devices
  unique by serial, two devices of the tenant have the serial A.
\<close>

theorem ingest_match_counterexample:
  "impresoras moved1 = [dev_hs 1 ''10.0.0.2'' ''B'' 1000]
   \<and> find (spec_clave 1 (Some ''A'') ''10.0.0.2'') (impresoras moved1) = None
   \<and> fst (post_metrics rt0 no_fail 2000 moved1 hdr0 (body_ser ''10.0.0.2'' ''A''))
       = Inr \<lparr> ok_printerId = 1, ok_empresaId = 1, ok_agentVersion = ''1.0.0'' \<rparr>
   \<and> impresoras (snd (post_metrics rt0 no_fail 2000 moved1 hdr0 (body_ser ''10.0.0.2'' ''A'')))
       = [dev_hs 1 ''10.0.0.2'' ''A'' 1000]
   \<and> spec_unique (impresoras moved1) \<and> spec_unique (impresoras moved2)
   \<and> impresoras moved3 = [dev_hs 1 ''10.0.0.2'' ''A'' 1000, dev_hs 2 ''10.0.0.1'' ''A'' 2000]
   \<and> \<not> spec_unique (impresoras moved3)"
proof -
  have a: "impresoras moved1 = [dev_hs 1 ''10.0.0.2'' ''B'' 1000]"
    by (simp add: moved1_store)
  have b: "find (spec_clave 1 (Some ''A'') ''10.0.0.2'') (impresoras moved1) = None"
    by (simp add: a spec_clave_def dev_hs_def)
  have c: "fst (post_metrics rt0 no_fail 2000 moved1 hdr0 (body_ser ''10.0.0.2'' ''A''))
             = Inr \<lparr> ok_printerId = 1, ok_empresaId = 1, ok_agentVersion = ''1.0.0'' \<rparr>"
    by (simp only: replaced_eval fst_conv)
  have d: "impresoras (snd (post_metrics rt0 no_fail 2000 moved1 hdr0 (body_ser ''10.0.0.2'' ''A'')))
             = [dev_hs 1 ''10.0.0.2'' ''A'' 1000]"
    by (simp only: replaced_eval snd_conv) simp
  have e: "spec_unique (impresoras moved1)"
    by (simp add: a spec_unique_def)
  have f: "spec_unique (impresoras moved2)"
    by (simp add: moved2_store spec_unique_def spec_key_def dev_hs_def)
  have g: "impresoras moved3 = [dev_hs 1 ''10.0.0.2'' ''A'' 1000, dev_hs 2 ''10.0.0.1'' ''A'' 2000]"
    by (simp add: moved3_store)
  have h: "\<not> spec_unique (impresoras moved3)"
    by (simp add: g spec_unique_def spec_key_def dev_hs_def)
  from a b c d e f g h show ?thesis by blast
qed

text \<open>
  C7, amended. A report that is accepted is resolved to the first device of the tenant
  whose host is the report's host or, when the report carries a non-empty serial,
  whose serial is the report's serial: that device is updated and no device is
  created. When the tenant has no such device, one device is created, with a new
  identifier. Either way the device of the answer is in the store afterwards with
  the tenant, host, serial, names, description and model of the report.
\<close>

theorem ingest_resolves_device:
  assumes "post_metrics rt fails now s hdr b = (Inr ok, s')"
  shows "\<exists>h. b_host b = Some h
           \<and> (case find (\<lambda>d. empresaId d = ok_empresaId ok
                              \<and> (host d = h \<or> (truthy (b_serial b) \<and> serial d = b_serial b)))
                     (impresoras s) of
                 Some d \<Rightarrow> ok_printerId ok = imp_id d
                          \<and> length (impresoras s') = length (impresoras s)
                          \<and> map imp_id (impresoras s') = map imp_id (impresoras s)
               | None \<Rightarrow> (\<exists>d'. impresoras s' = impresoras s @ [d']
                              \<and> ok_printerId ok = imp_id d'
                              \<and> imp_id d' \<notin> set (map imp_id (impresoras s))))
           \<and> (\<exists>d' \<in> set (impresoras s').
                 imp_id d' = ok_printerId ok \<and> empresaId d' = ok_empresaId ok
                 \<and> host d' = h \<and> serial d' = b_serial b \<and> sysName d' = b_sysName b
                 \<and> sysDescr d' = b_sysDescr b \<and> printerName d' = b_printerName b
                 \<and> model d' = b_model b)"
proof -
  from post_metrics_Inr [OF assms] obtain emp :: empresa and h where
    h: "b_host b = Some h" and
    e: "ok_empresaId ok = empresa_id emp" and
    pid: "ok_printerId ok = imp_id (fst (upsert_impresora now (empresa_id emp) b h (impresoras s)))" and
    ds: "impresoras s' = snd (upsert_impresora now (empresa_id emp) b h (impresoras s))"
    by blast
  define q where "q = claveOr (empresa_id emp) (b_serial b) h"
  have q: "q = (\<lambda>d. empresaId d = ok_empresaId ok
                    \<and> (host d = h \<or> (truthy (b_serial b) \<and> serial d = b_serial b)))"
    by (rule ext) (simp add: q_def claveOr_iff e)
  define f where "f = setBase (empresa_id emp) b h"
  have idf: "\<And>d. imp_id (f d) = imp_id d" by (simp add: f_def setBase_fields)
  have mapid: "map imp_id (update_first q f (impresoras s)) = map imp_id (impresoras s)"
    by (rule update_first_map) (rule idf)
  have "(case find q (impresoras s) of
           Some d \<Rightarrow> ok_printerId ok = imp_id d
                    \<and> length (impresoras s') = length (impresoras s)
                    \<and> map imp_id (impresoras s') = map imp_id (impresoras s)
         | None \<Rightarrow> (\<exists>d'. impresoras s' = impresoras s @ [d']
                        \<and> ok_printerId ok = imp_id d'
                        \<and> imp_id d' \<notin> set (map imp_id (impresoras s))))
        \<and> (\<exists>d' \<in> set (impresoras s').
              imp_id d' = ok_printerId ok \<and> empresaId d' = ok_empresaId ok
              \<and> host d' = h \<and> serial d' = b_serial b \<and> sysName d' = b_sysName b
              \<and> sysDescr d' = b_sysDescr b \<and> printerName d' = b_printerName b
              \<and> model d' = b_model b)"
  proof (cases "find q (impresoras s)")
    case None
    define d' where
      "d' = f \<lparr> imp_id = fresh_id (map imp_id (impresoras s)), empresaId = empresa_id emp,
                ciudad = None, host = h, serial = None, sysName = None, sysDescr = None,
                printerName = None, model = None, createdAt = Date now \<rparr>"
    from None have up: "upsert_impresora now (empresa_id emp) b h (impresoras s)
                          = (d', impresoras s @ [d'])"
      by (simp add: upsert_impresora_def q_def f_def d'_def Let_def)
    have "imp_id d' = fresh_id (map imp_id (impresoras s))"
      by (simp add: d'_def idf)
    then have fresh: "imp_id d' \<notin> set (map imp_id (impresoras s))"
      using fresh_id_fresh [of "map imp_id (impresoras s)"] by simp
    have fields: "empresaId d' = ok_empresaId ok \<and> host d' = h \<and> serial d' = b_serial b
                  \<and> sysName d' = b_sysName b \<and> sysDescr d' = b_sysDescr b
                  \<and> printerName d' = b_printerName b \<and> model d' = b_model b"
      by (simp add: d'_def f_def setBase_fields e)
    have new: "impresoras s' = impresoras s @ [d']" and id: "ok_printerId ok = imp_id d'"
      using up pid ds by simp_all
    have "\<exists>x. impresoras s' = impresoras s @ [x] \<and> ok_printerId ok = imp_id x
               \<and> imp_id x \<notin> set (map imp_id (impresoras s))"
      using new id fresh by blast
    moreover have "d' \<in> set (impresoras s')" by (simp add: new)
    ultimately show ?thesis using None fields id by auto
  next
    case (Some d)
    then have up: "upsert_impresora now (empresa_id emp) b h (impresoras s)
                     = (f d, update_first q f (impresoras s))"
      by (simp add: upsert_impresora_def q_def f_def)
    have mem: "f d \<in> set (impresoras s')"
      using update_first_member [OF Some, of f] ds up by simp
    have fields: "imp_id (f d) = imp_id d \<and> empresaId (f d) = ok_empresaId ok \<and> host (f d) = h
                  \<and> serial (f d) = b_serial b
                  \<and> sysName (f d) = b_sysName b \<and> sysDescr (f d) = b_sysDescr b
                  \<and> printerName (f d) = b_printerName b \<and> model (f d) = b_model b"
      by (simp add: f_def setBase_fields e)
    have id: "ok_printerId ok = imp_id d" using pid up fields by simp
    have same: "length (impresoras s') = length (impresoras s)
                \<and> map imp_id (impresoras s') = map imp_id (impresoras s)"
      using ds up mapid by (simp add: update_first_length)
    from mem fields id have "\<exists>d' \<in> set (impresoras s').
              imp_id d' = ok_printerId ok \<and> empresaId d' = ok_empresaId ok
              \<and> host d' = h \<and> serial d' = b_serial b \<and> sysName d' = b_sysName b
              \<and> sysDescr d' = b_sysDescr b \<and> printerName d' = b_printerName b
              \<and> model d' = b_model b"
      by (intro bexI [of _ "f d"]) simp_all
    with Some id same show ?thesis by simp
  qed
  then show ?thesis
    unfolding q using h by blast
qed

theorem ingest_resolves_device_witness:
  "find (\<lambda>d. empresaId d = 1 \<and> (host d = ''10.0.0.2'' \<or> serial d = Some ''A'')) (impresoras moved2)
     = Some (dev_hs 1 ''10.0.0.2'' ''B'' 1000)
   \<and> map imp_id (impresoras moved3) = map imp_id (impresoras moved2)
   \<and> (\<exists>d' \<in> set (impresoras moved3). imp_id d' = 1 \<and> host d' = ''10.0.0.2'' \<and> serial d' = Some ''A'')"
proof -
  have t: "truthy (b_serial (body_ser ''10.0.0.2'' ''A''))"
          "b_serial (body_ser ''10.0.0.2'' ''A'') = Some ''A''"
          "b_host (body_ser ''10.0.0.2'' ''A'') = Some ''10.0.0.2''"
    by (simp_all add: body_ser_def body_host_def)
  from ingest_resolves_device [OF moved3_eval]
  show ?thesis
    by (simp add: t moved2_store moved3_store dev_hs_def)
qed

section \<open>Properties of the report\<close>

lemma nuevoCorte_no_predecessor:
  "corte_ultimoCorteId (nuevoCorte rt ahora s pid imp latest uc) = None"
  by (simp add: nuevoCorte_def Let_def)

text \<open>
  C10. The report of a device whose latest state points to a cut shows the start
  counter, the end counter and the total of that cut, but not its period label. The
  route computes the label anew from the cut that the reported cut references as its
  predecessor, and the route that registers a cut never stores that reference. So
  after two reports and two registrations, the second cut holds the range of its two
  dates as its label, and the report generated for it shows the label of a first
  cut.
\<close>

theorem generar_pdf_first_cut_label:
  "post_metrics rt0 no_fail 1000 store0 hdr0 (body_full ''10.0.0.5'' ''A1'' 1500 15)
     = (Inr \<lparr> ok_printerId = 1, ok_empresaId = 1, ok_agentVersion = ''1.0.0'' \<rparr>, store1)
   \<and> snd (registrar_corte rt0 no_fail 2000 store1 1) = [store1, store1c, store2]
   \<and> post_metrics rt0 no_fail 90000000 store2 hdr0 (body_full ''10.0.0.5'' ''A1'' 1800 60)
     = (Inr \<lparr> ok_printerId = 1, ok_empresaId = 1, ok_agentVersion = ''1.0.0'' \<rparr>, store3)
   \<and> snd (registrar_corte rt0 no_fail 90001000 store3 1) = [store3, store3c, store4]
   \<and> map ultimoCorteId (latests store4) = [Some 2]
   \<and> find_corte store4 2 = Some corte2
   \<and> periodo corte2 = ''1/1/1970 - 1/2/1970''
   \<and> corte_ultimoCorteId corte2 = None
   \<and> generar_pdf rt0 no_fail 90002000 store4 1 =
       Inr \<lparr> pdf_empresa = ''Acme'', pdf_impresora = ''prn'', pdf_modelo = ''M1'',
             pdf_serie = ''A1'', pdf_ubicacion = ''N/A'', pdf_periodo = Desde_instalacion,
             pdf_inicio = ''1,500'', pdf_fin = ''1,800'', pdf_total = ''300'' \<rparr>
   \<and> Desde_instalacion \<noteq> periodo corte2"
proof -
  have a: "snd (registrar_corte rt0 no_fail 2000 store1 1) = [store1, store1c, store2]"
          "snd (registrar_corte rt0 no_fail 90001000 store3 1) = [store3, store3c, store4]"
    by (simp_all only: run_corte1 run_corte2 snd_conv)
  have b: "map ultimoCorteId (latests store4) = [Some 2]"
    by (simp add: store4_def latest_at_def)
  have c: "find_corte store4 2 = Some corte2"
    by (simp add: store4_def store3c_def find_corte_def corte1_def corte2_def)
  have d: "periodo corte2 = ''1/1/1970 - 1/2/1970''" "corte_ultimoCorteId corte2 = None"
          "Desde_instalacion \<noteq> periodo corte2"
    by (simp_all add: corte2_def Desde_instalacion_def)
  from post_metrics_store0_full run_metrics2 a b c d run_pdf show ?thesis
    by blast
qed

end
